theory Spec2Isabelle
  imports Complex_Main "HOL-Library.FSet"
begin

section \<open>Python text and the runtime's character tables\<close>

text \<open>
  A Python \<open>str\<close> is a sequence of Unicode code points, so a text is a list of code
  points. The literals of the sources are Cyrillic; they are written here by their code
  points, with the text they stand for in a comment.
\<close>

type_synonym str = "nat list"

text \<open>
  The parsers call into the interpreter's Unicode database and number conversions:
  \<open>\d\<close> of \<open>re\<close> and \<open>int()\<close> read the decimal-digit table, \<open>str.isdigit\<close>,
  \<open>str.split\<close>, \<open>str.strip\<close> and \<open>str.lower\<close> read tables of their own, and
  \<open>float()\<close> is the interpreter's conversion. None of these tables is part of the
  repository, so the model takes them as a parameter: a record of the runtime.
  \<open>py_float\<close> returns \<open>None\<close> where \<open>float()\<close> raises \<open>ValueError\<close>; the type
  \<open>'f\<close> stands for the floating-point values. \<open>py_int_max_str_digits\<close> is
  \<open>sys.get_int_max_str_digits()\<close>, the greatest number of digits that \<open>int()\<close>
  converts: 4300 unless the process or its environment sets another value, and 0 when
  there is no limit (also on the interpreters older than the limit).
\<close>

record 'f runtime =
  py_decimal :: "nat \<Rightarrow> nat option"
  py_isdigit :: "nat \<Rightarrow> bool"
  py_isspace :: "nat \<Rightarrow> bool"
  py_lower :: "str \<Rightarrow> str"
  py_float :: "str \<Rightarrow> 'f option"
  py_int_max_str_digits :: nat

datatype error = IndexError | ValueError | PlaywrightError | OSError | TransferError

text \<open>Maximal runs of the characters that satisfy \<open>p\<close>, in order of appearance.\<close>

fun runs :: "(nat \<Rightarrow> bool) \<Rightarrow> str \<Rightarrow> str \<Rightarrow> str list" where
  "runs p cur [] = (if cur = [] then [] else [rev cur])"
| "runs p cur (c # cs) =
     (if p c then runs p (c # cur) cs
      else (if cur = [] then [] else [rev cur]) @ runs p [] cs)"

text \<open>\<open>re.sub(r'[^\d]', '', text)\<close>: every character that is not a decimal digit is removed.\<close>

definition re_sub_non_digits :: "'f runtime \<Rightarrow> str \<Rightarrow> str" where
  "re_sub_non_digits R t = filter (\<lambda>c. py_decimal R c \<noteq> None) t"

text \<open>\<open>re.findall(r'\d+', text)\<close>: the maximal runs of decimal digits.\<close>

definition re_findall_digits :: "'f runtime \<Rightarrow> str \<Rightarrow> str list" where
  "re_findall_digits R t = runs (\<lambda>c. py_decimal R c \<noteq> None) [] t"

text \<open>\<open>text.split()\<close>: the maximal runs of characters that are not whitespace.\<close>

definition py_split :: "'f runtime \<Rightarrow> str \<Rightarrow> str list" where
  "py_split R t = runs (\<lambda>c. \<not> py_isspace R c) [] t"

text \<open>\<open>text.strip()\<close>: whitespace removed at both ends.\<close>

definition py_strip :: "'f runtime \<Rightarrow> str \<Rightarrow> str" where
  "py_strip R t = rev (dropWhile (py_isspace R) (rev (dropWhile (py_isspace R) t)))"

text \<open>\<open>text.replace(',', '.')\<close>.\<close>

definition replace_comma :: "str \<Rightarrow> str" where
  "replace_comma t = map (\<lambda>c. if c = 44 then 46 else c) t"

text \<open>\<open>text.isdigit()\<close>: not empty, and every character is a digit.\<close>

definition str_isdigit :: "'f runtime \<Rightarrow> str \<Rightarrow> bool" where
  "str_isdigit R t = (t \<noteq> [] \<and> list_all (py_isdigit R) t)"

text \<open>\<open>text.startswith(p)\<close>.\<close>

definition startswith :: "str \<Rightarrow> str \<Rightarrow> bool" where
  "startswith t p = (take (length p) t = p)"

text \<open>
  \<open>int(text)\<close> on a text of decimal digits: the number they write in base ten, each
  character read through the decimal-digit table. The parsers pass only texts that
  \<open>\d\<close> has matched character by character; the signs, underscores and surrounding
  whitespace that \<open>int()\<close> accepts as well contain characters that \<open>\d\<close> does not
  match and never reach it, so every other text is the \<open>ValueError\<close> branch here.
  Python integers are unbounded, the conversion is not: \<open>int()\<close> raises \<open>ValueError\<close>
  on a text with more digits than the runtime's limit, leading zeros counted. The
  interpreter compares with the limit only above 640 digits
  (\<open>sys.int_info.str_digits_check_threshold\<close>) and accepts no limit from 1 to 639, so
  a text of at most 640 digits is converted under every setting. Memory is taken to
  suffice for the number.
\<close>

definition str_digits_check_threshold :: nat where
  "str_digits_check_threshold = 640"

definition exceeds_int_max_str_digits :: "'f runtime \<Rightarrow> str \<Rightarrow> bool" where
  "exceeds_int_max_str_digits R t =
     (str_digits_check_threshold < length t
      \<and> 0 < py_int_max_str_digits R \<and> py_int_max_str_digits R < length t)"

definition digit_of :: "'f runtime \<Rightarrow> nat \<Rightarrow> int" where
  "digit_of R c = (case py_decimal R c of Some d \<Rightarrow> int d | None \<Rightarrow> 0)"

definition py_int :: "'f runtime \<Rightarrow> str \<Rightarrow> error + int" where
  "py_int R t =
     (if t \<noteq> [] \<and> list_all (\<lambda>c. py_decimal R c \<noteq> None) t
      then if exceeds_int_max_str_digits R t then Inl ValueError
           else Inr (foldl (\<lambda>a c. 10 * a + digit_of R c) 0 t)
      else Inl ValueError)"

section \<open>The value parsers of \<open>card_parser.py\<close>\<close>

text \<open>
  An argument of each parser is \<open>None\<close> or a text; the result is \<open>Inl\<close> of the exception
  that leaves the function, or \<open>Inr\<close> of the returned value, which may be \<open>None\<close>.
\<close>

definition parse_price :: "'f runtime \<Rightarrow> str option \<Rightarrow> error + int option" where
  "parse_price R arg =
     (case arg of
        None \<Rightarrow> Inr None
      | Some t \<Rightarrow>
          if t = [] then Inr None
          else let clean_text = re_sub_non_digits R t in
            if str_isdigit R clean_text
            then (case py_int R clean_text of Inl e \<Rightarrow> Inl e | Inr n \<Rightarrow> Inr (Some n))
            else Inr None)"

definition parse_float_value :: "'f runtime \<Rightarrow> str option \<Rightarrow> error + 'f option" where
  "parse_float_value R arg =
     (case arg of
        None \<Rightarrow> Inr None
      | Some t \<Rightarrow>
          if t = [] then Inr None
          else (case py_split R t of
                  [] \<Rightarrow> Inl IndexError
                | w # _ \<Rightarrow> Inr (py_float R (replace_comma w))))"

definition parse_int_value :: "'f runtime \<Rightarrow> str option \<Rightarrow> error + int option" where
  "parse_int_value R arg =
     (case arg of
        None \<Rightarrow> Inr None
      | Some t \<Rightarrow>
          if t = [] then Inr None
          else (case re_findall_digits R t of
                  [] \<Rightarrow> Inr None
                | n # _ \<Rightarrow> (case py_int R n of Inl e \<Rightarrow> Inl e | Inr v \<Rightarrow> Inr (Some v))))"

text \<open>The city prefix \<open>"Ufa, "\<close> in Cyrillic: U+0423 U+0444 U+0430, a comma, a space.\<close>

definition city_prefix :: str where
  "city_prefix = [1059, 1092, 1072, 44, 32]"

definition parse_address :: "str option \<Rightarrow> str option" where
  "parse_address arg =
     (case arg of
        None \<Rightarrow> None
      | Some t \<Rightarrow>
          if t = [] then None
          else if startswith t city_prefix then Some (drop 5 t)
          else Some t)"

section \<open>The field extractor of \<open>card_parser.py\<close>\<close>

text \<open>
  The record that \<open>scrape_offer_details\<close> fills. The field \<open>floor\<close> of the source is
  \<open>floor_no\<close> here, the name \<open>floor\<close> being taken in HOL.
\<close>

record 'f offer =
  url :: str
  address :: "str option"
  price_rub :: "int option"
  total_area_sqm :: "'f option"
  living_area_sqm :: "'f option"
  kitchen_area_sqm :: "'f option"
  floor_no :: "int option"
  floor_total :: "int option"
  ceiling_height_m :: "'f option"
  year_built :: "int option"

definition initial_data :: "str \<Rightarrow> 'f offer" where
  "initial_data u =
     \<lparr>url = u, address = None, price_rub = None, total_area_sqm = None,
      living_area_sqm = None, kitchen_area_sqm = None, floor_no = None,
      floor_total = None, ceiling_height_m = None, year_built = None\<rparr>"

text \<open>
  What the browser shows after \<open>page.goto(url)\<close>: the navigation raised, or the page is
  there with the inner text of the price element and of the address element (\<open>None\<close>
  when \<open>query_selector\<close> finds no such element) and the list of highlight containers,
  each a pair of the inner texts of its value element and its label element (\<open>None\<close>
  for a missing element).
\<close>

datatype card_page =
  NavigationFailed
| Rendered (price_elem: "str option") (address_elem: "str option")
    (feature_containers: "(str option \<times> str option) list")

text \<open>The labels of the \<open>if\<close>/\<open>elif\<close> chain, in Cyrillic, by code point.\<close>

definition label_total :: str where       \<comment> \<open>"obshchaya" (total)\<close>
  "label_total = [1086, 1073, 1097, 1072, 1103]"

definition label_living :: str where      \<comment> \<open>"zhilaya" (living)\<close>
  "label_living = [1078, 1080, 1083, 1072, 1103]"

definition label_kitchen :: str where     \<comment> \<open>"kukhnya" (kitchen)\<close>
  "label_kitchen = [1082, 1091, 1093, 1085, 1103]"

definition label_floor :: str where       \<comment> \<open>"etazh" (floor)\<close>
  "label_floor = [1101, 1090, 1072, 1078]"

definition label_of_10 :: str where       \<comment> \<open>"iz 10" (out of 10)\<close>
  "label_of_10 = [1080, 1079, 32, 49, 48]"

definition label_floors :: str where      \<comment> \<open>"etazhey" (of floors)\<close>
  "label_floors = [1101, 1090, 1072, 1078, 1077, 1081]"

definition label_of :: str where          \<comment> \<open>"iz" (out of)\<close>
  "label_of = [1080, 1079]"

definition label_ceilings :: str where    \<comment> \<open>"potolki" (ceilings)\<close>
  "label_ceilings = [1087, 1086, 1090, 1086, 1083, 1082, 1080]"

definition label_year_built :: str where  \<comment> \<open>"god postroyki" (year built)\<close>
  "label_year_built =
     [1075, 1086, 1076, 32, 1087, 1086, 1089, 1090, 1088, 1086, 1081, 1082, 1080]"

text \<open>
  The chain tests the normalised label against the labels in this order and takes the
  first branch that matches; \<open>route\<close> names the branch taken, \<open>None\<close> when none is.
\<close>

datatype field =
  TotalArea | LivingArea | KitchenArea | Floor | FloorTotal | CeilingHeight | YearBuilt

definition route :: "str \<Rightarrow> field option" where
  "route label_text =
     (if label_text = label_total then Some TotalArea
      else if label_text = label_living then Some LivingArea
      else if label_text = label_kitchen then Some KitchenArea
      else if label_text = label_floor then Some Floor
      else if label_text = label_of_10 \<or> label_text = label_floors
              \<or> startswith label_text label_of then Some FloorTotal
      else if label_text = label_ceilings then Some CeilingHeight
      else if label_text = label_year_built then Some YearBuilt
      else None)"

text \<open>An assignment \<open>data[k] = parse(...)\<close>: the exception of the parser, or the record updated.\<close>

definition store :: "error + 'a \<Rightarrow> ('a \<Rightarrow> 'b) \<Rightarrow> error + 'b" where
  "store r upd = (case r of Inl e \<Rightarrow> Inl e | Inr v \<Rightarrow> Inr (upd v))"

definition assign :: "'f runtime \<Rightarrow> field \<Rightarrow> str \<Rightarrow> 'f offer \<Rightarrow> error + 'f offer" where
  "assign R fld value_text data =
     (case fld of
        TotalArea \<Rightarrow>
          store (parse_float_value R (Some value_text)) (\<lambda>v. data\<lparr>total_area_sqm := v\<rparr>)
      | LivingArea \<Rightarrow>
          store (parse_float_value R (Some value_text)) (\<lambda>v. data\<lparr>living_area_sqm := v\<rparr>)
      | KitchenArea \<Rightarrow>
          store (parse_float_value R (Some value_text)) (\<lambda>v. data\<lparr>kitchen_area_sqm := v\<rparr>)
      | Floor \<Rightarrow>
          store (parse_int_value R (Some value_text)) (\<lambda>v. data\<lparr>floor_no := v\<rparr>)
      | FloorTotal \<Rightarrow>
          store (parse_int_value R (Some value_text)) (\<lambda>v. data\<lparr>floor_total := v\<rparr>)
      | CeilingHeight \<Rightarrow>
          store (parse_float_value R (Some value_text)) (\<lambda>v. data\<lparr>ceiling_height_m := v\<rparr>)
      | YearBuilt \<Rightarrow>
          store (parse_int_value R (Some value_text)) (\<lambda>v. data\<lparr>year_built := v\<rparr>))"

text \<open>
  The loop over the containers, inside the \<open>try\<close>: the record as it is when the loop
  ends, with the exception that ended it, if one did. A container without a value element
  or without a label element is skipped (\<open>continue\<close>).
\<close>

fun scrape_features ::
  "'f runtime \<Rightarrow> (str option \<times> str option) list \<Rightarrow> 'f offer \<Rightarrow> 'f offer \<times> error option" where
  "scrape_features R [] data = (data, None)"
| "scrape_features R ((Some value_text, Some label_raw) # rest) data =
     (case route (py_lower R (py_strip R label_raw)) of
        None \<Rightarrow> scrape_features R rest data
      | Some fld \<Rightarrow>
          (case assign R fld value_text data of
             Inl e \<Rightarrow> (data, Some e)
           | Inr data' \<Rightarrow> scrape_features R rest data'))"
| "scrape_features R (_ # rest) data = scrape_features R rest data"

text \<open>The body of the \<open>try\<close> of \<open>scrape_offer_details\<close>: price, address, containers.\<close>

definition try_body :: "'f runtime \<Rightarrow> card_page \<Rightarrow> 'f offer \<Rightarrow> 'f offer \<times> error option" where
  "try_body R pg data =
     (case pg of
        NavigationFailed \<Rightarrow> (data, Some PlaywrightError)
      | Rendered price_el address_el containers \<Rightarrow>
          (case (case price_el of
                   None \<Rightarrow> Inr data
                 | Some price_text \<Rightarrow>
                     store (parse_price R (Some price_text)) (\<lambda>v. data\<lparr>price_rub := v\<rparr>)) of
             Inl e \<Rightarrow> (data, Some e)
           | Inr data1 \<Rightarrow>
               scrape_features R containers
                 (case address_el of
                    None \<Rightarrow> data1
                  | Some address_text \<Rightarrow>
                      data1\<lparr>address := parse_address (Some address_text)\<rparr>)))"

text \<open>
  \<open>except Exception\<close> prints the exception and drops it: the function returns the record
  as the \<open>try\<close> left it.
\<close>

definition scrape_offer_details :: "'f runtime \<Rightarrow> card_page \<Rightarrow> str \<Rightarrow> 'f offer" where
  "scrape_offer_details R pg u = fst (try_body R pg (initial_data u))"

section \<open>The detail fetcher of \<open>card_parser.py\<close>\<close>

text \<open>
  \<open>browse i link\<close> is what the browser shows at the \<open>i\<close>-th visit, of \<open>link\<close>. The loop
  appends one record per link to \<open>results\<close>; the browser is taken to have started.
\<close>

fun fetch_loop ::
  "'f runtime \<Rightarrow> (nat \<Rightarrow> str \<Rightarrow> card_page) \<Rightarrow> nat \<Rightarrow> str list \<Rightarrow> 'f offer list \<Rightarrow> 'f offer list" where
  "fetch_loop R browse i [] results = results"
| "fetch_loop R browse i (link # rest) results =
     fetch_loop R browse (Suc i) rest (results @ [scrape_offer_details R (browse i link) link])"

definition scrape_offers_details ::
  "'f runtime \<Rightarrow> (nat \<Rightarrow> str \<Rightarrow> card_page) \<Rightarrow> str list \<Rightarrow> 'f offer list" where
  "scrape_offers_details R browse links = fetch_loop R browse 1 links []"

section \<open>The frontier walker of \<open>url_parser.py\<close>\<close>

text \<open>
  The walker reads one thing from the URL of a catalogue page, the query parameter
  \<open>page\<close>, and writes it back for the next page; the rest of the URL is carried along
  (\<open>urlencode\<close> writes the other parameters again as \<open>parse_qs\<close> read them). A URL
  is therefore the pair of that rest (\<open>locator\<close>, the same for all pages of one walk) and
  of the parameter as \<open>parse_qs\<close> and \<open>int()\<close> see its first value: absent (or blank),
  an integer, or a text that \<open>int()\<close> refuses. The pair stands for the URL that the
  code computes for that page.
\<close>

datatype page_field = NoPage | PageInt int | PageBad

record catalog_url =
  locator :: str
  page_field :: page_field

text \<open>
  \<open>int(parsed_q.get('page', [1])[0])\<close>, evaluated before the \<open>try\<close>: a text that
  \<open>int()\<close> refuses raises \<open>ValueError\<close> out of the walker.
\<close>

definition page_param :: "catalog_url \<Rightarrow> error + int" where
  "page_param current_url =
     (case page_field current_url of
        NoPage \<Rightarrow> Inr 1
      | PageInt n \<Rightarrow> Inr n
      | PageBad \<Rightarrow> Inl ValueError)"

text \<open>The next page: 2 when the URL has no parameter \<open>page\<close>, the successor otherwise.\<close>

definition next_page_url :: "catalog_url \<Rightarrow> int \<Rightarrow> catalog_url" where
  "next_page_url current_url page_param_value =
     current_url\<lparr>page_field :=
       PageInt (if page_field current_url = NoPage then 2 else page_param_value + 1)\<rparr>"

text \<open>
  What a visit of a page gives: \<open>page.goto\<close> raised, the wait for an offer anchor raised
  (both inside the \<open>try\<close>), or the page is there with the \<open>href\<close> attribute of each of its
  offer anchors (\<open>None\<close> for an anchor without the attribute). The calls after the
  \<open>try\<close> (scrolling, reading the anchors) are taken to return, and so is the captcha
  handler, whose wait for the captcha to disappear has no timeout.
\<close>

datatype page_outcome = GotoFailed | SelectorTimeout | Loaded "str option list"

definition offer_prefix :: str where      \<comment> \<open>"/offer/"\<close>
  "offer_prefix = [47, 111, 102, 102, 101, 114, 47]"

text \<open>
  The loop over the anchors: an \<open>href\<close> that starts with \<open>/offer/\<close> is resolved against
  the URL of the page and added to the set. \<open>urljoin\<close> is the standard library's; the
  walker takes it as a parameter.
\<close>

fun collect_links ::
  "(catalog_url \<Rightarrow> str \<Rightarrow> str) \<Rightarrow> catalog_url \<Rightarrow> str option list \<Rightarrow> str fset \<Rightarrow> str fset" where
  "collect_links urljoin current_url [] collected_links = collected_links"
| "collect_links urljoin current_url (None # elements) collected_links =
     collect_links urljoin current_url elements collected_links"
| "collect_links urljoin current_url (Some href # elements) collected_links =
     (if href \<noteq> [] \<and> startswith href offer_prefix
      then collect_links urljoin current_url elements
             (finsert (urljoin current_url href) collected_links)
      else collect_links urljoin current_url elements collected_links)"

text \<open>
  \<open>_recursive_scrape_page\<close>. The result is the set of collected links (the source returns
  it as a list, in the order the set iterates), or the exception that leaves the
  function. The recursion is the source's: one call per page, the page number growing by
  one up to the cap of 25. The interpreter's limit on the depth of recursion, which a
  seed with a page number far below zero would meet, is outside the model.
\<close>

function recursive_scrape_page ::
  "(catalog_url \<Rightarrow> page_outcome) \<Rightarrow> (catalog_url \<Rightarrow> str \<Rightarrow> str) \<Rightarrow> catalog_url \<Rightarrow> str fset
     \<Rightarrow> error + str fset" where
  "recursive_scrape_page visit urljoin current_url collected_links =
     (case page_param current_url of
        Inl e \<Rightarrow> Inl e
      | Inr page_number_display \<Rightarrow>
          (case visit current_url of
             GotoFailed \<Rightarrow> Inr collected_links
           | SelectorTimeout \<Rightarrow> Inr collected_links
           | Loaded elements \<Rightarrow>
               (let links_before_scrape = int (fcard collected_links);
                    collected = collect_links urljoin current_url elements collected_links;
                    found_on_this_page = int (fcard collected) - links_before_scrape
                in if found_on_this_page = 0 \<and> page_number_display > 1 then Inr collected
                   else if page_number_display \<ge> 25 then Inr collected
                   else recursive_scrape_page visit urljoin
                          (next_page_url current_url page_number_display) collected)))"
  by pat_completeness auto
termination
proof (relation "measure (\<lambda>(visit, urljoin, u, links).
                   nat (25 - (case page_param u of Inl e \<Rightarrow> 25 | Inr n \<Rightarrow> n)))")
  show "wf (measure (\<lambda>(visit, urljoin, u, links).
                   nat (25 - (case page_param u of Inl e \<Rightarrow> 25 | Inr n \<Rightarrow> n))))"
    by simp
next
  fix visit :: "catalog_url \<Rightarrow> page_outcome" and urljoin :: "catalog_url \<Rightarrow> str \<Rightarrow> str"
    and current_url :: catalog_url and collected_links :: "str fset"
    and n :: int and elements ls and c :: "str fset" and f :: int
  assume "page_param current_url = Inr n" and "\<not> 25 \<le> n"
  then show "((visit, urljoin, next_page_url current_url n, c),
              (visit, urljoin, current_url, collected_links))
             \<in> measure (\<lambda>(visit, urljoin, u, links).
                   nat (25 - (case page_param u of Inl e \<Rightarrow> 25 | Inr n \<Rightarrow> n)))"
    by (auto simp: page_param_def next_page_url_def split: page_field.splits)
qed

declare recursive_scrape_page.simps [simp del]

text \<open>
  The URL of page \<open>j\<close> in a walk from a seed URL: the seed itself for the seed's own
  page, the seed with its parameter \<open>page\<close> set to \<open>j\<close> otherwise. And the set the
  walker holds after the pages \<open>s\<close> to \<open>n\<close> of a walk that starts at page \<open>s\<close>,
  empty when \<open>n\<close> is below \<open>s\<close>: the reading of "the links collected from pages
  1..n" (\<open>s = 1\<close>) that the walker's result is compared with.
\<close>

definition page_url :: "catalog_url \<Rightarrow> int \<Rightarrow> catalog_url" where
  "page_url seed j =
     (if page_param seed = Inr j then seed else seed\<lparr>page_field := PageInt j\<rparr>)"

function links_between ::
  "(catalog_url \<Rightarrow> page_outcome) \<Rightarrow> (catalog_url \<Rightarrow> str \<Rightarrow> str) \<Rightarrow> catalog_url \<Rightarrow> int \<Rightarrow> int
     \<Rightarrow> str fset" where
  "links_between visit urljoin seed s n =
     (if n < s then {||}
      else (case visit (page_url seed n) of
              Loaded elements \<Rightarrow>
                collect_links urljoin (page_url seed n) elements
                  (links_between visit urljoin seed s (n - 1))
            | _ \<Rightarrow> links_between visit urljoin seed s (n - 1)))"
  by pat_completeness auto
termination
  by (relation "measure (\<lambda>(visit, urljoin, seed, s, n). nat (n - s + 1))") auto

declare links_between.simps [simp del]

section \<open>Batch insert of \<open>cassandra_uploader.py\<close>\<close>

text \<open>
  \<open>insert_offer\<close> runs one statement on the session inside \<open>try\<close> and answers
  \<open>True\<close>, or \<open>False\<close> when the statement raised. What the session does with the
  \<open>i\<close>-th statement of a batch is the environment's: \<open>execute_ok i offer\<close> says whether
  it returned.
\<close>

definition insert_offer :: "(nat \<Rightarrow> 'o \<Rightarrow> bool) \<Rightarrow> nat \<Rightarrow> 'o \<Rightarrow> bool" where
  "insert_offer execute_ok i offer_data = (if execute_ok i offer_data then True else False)"

text \<open>
  The dictionary that \<open>insert_offers_batch\<close> returns; its key \<open>total\<close> is
  \<open>total_count\<close> here, the name \<open>total\<close> being taken in HOL.
\<close>

record batch_stats =
  successful :: int
  failed :: int
  total_count :: int

text \<open>The loop of \<open>insert_offers_batch\<close>, with the two counters and the index of \<open>enumerate\<close>.\<close>

fun insert_loop :: "(nat \<Rightarrow> 'o \<Rightarrow> bool) \<Rightarrow> nat \<Rightarrow> 'o list \<Rightarrow> int \<times> int \<Rightarrow> int \<times> int" where
  "insert_loop execute_ok i [] (s, f) = (s, f)"
| "insert_loop execute_ok i (offer # rest) (s, f) =
     (if insert_offer execute_ok i offer
      then insert_loop execute_ok (Suc i) rest (s + 1, f)
      else insert_loop execute_ok (Suc i) rest (s, f + 1))"

definition insert_offers_batch :: "(nat \<Rightarrow> 'o \<Rightarrow> bool) \<Rightarrow> 'o list \<Rightarrow> batch_stats" where
  "insert_offers_batch execute_ok offers_data =
     (let (s, f) = insert_loop execute_ok 1 offers_data (0, 0)
      in \<lparr>successful = s, failed = f, total_count = int (length offers_data)\<rparr>)"

section \<open>The export pipeline of \<open>export_to_yandex_cloud.py\<close> and \<open>uploader.py\<close>\<close>

text \<open>
  The pipeline acts on the local files, a set of paths, and on collaborators whose
  answers are the environment's: what \<open>create_offers_dataframe_with_districts\<close> gives
  (it raised, \<open>None\<close>, an empty frame, a frame with rows), whether \<open>df.to_csv\<close> returns,
  whether \<open>create_s3_session\<close> gives a client, the bucket named by the process
  environment, whether the module-level credentials are all set, what the client's
  \<open>upload_file\<close> does, and whether \<open>os.remove\<close> of an existing file returns.
\<close>

datatype frame = FrameRaised | FrameNone | FrameEmpty | FrameRows

datatype transfer = Transferred | ClientError | FileNotFoundError | OtherFailure

record cloud_env =
  frame_outcome :: frame
  to_csv_ok :: bool
  s3_session :: bool
  getenv_bucket :: "string option"
  credentials :: bool
  transfer_outcome :: transfer
  remove_ok :: bool

definition upload_file_to_s3 :: "cloud_env \<Rightarrow> string \<Rightarrow> string \<Rightarrow> string set \<Rightarrow> error + bool" where
  "upload_file_to_s3 E file_path bucket_name files =
     (if \<not> credentials E then Inr False
      else if file_path \<notin> files then Inr False
      else (case transfer_outcome E of
              Transferred \<Rightarrow> Inr True
            | ClientError \<Rightarrow> Inr False
            | FileNotFoundError \<Rightarrow> Inr False
            | OtherFailure \<Rightarrow> Inl TransferError))"

definition upload_to_yandex_cloud ::
  "cloud_env \<Rightarrow> string \<Rightarrow> string option \<Rightarrow> string set \<Rightarrow> bool" where
  "upload_to_yandex_cloud E file_path bucket_name files =
     (if \<not> s3_session E then False
      else (case (case bucket_name of
                    None \<Rightarrow> (case getenv_bucket E of
                                None \<Rightarrow> None
                              | Some b \<Rightarrow> if b = [] then None else Some b)
                  | Some b \<Rightarrow> Some b) of
              None \<Rightarrow> False
            | Some b \<Rightarrow>
                (case upload_file_to_s3 E file_path b files of
                   Inl e \<Rightarrow> False
                 | Inr success \<Rightarrow> success)))"

definition csv_name :: string where
  "csv_name = ''apartments.csv''"

definition save_dataframe_to_csv :: "cloud_env \<Rightarrow> string set \<Rightarrow> error + string \<times> string set" where
  "save_dataframe_to_csv E files =
     (if to_csv_ok E then Inr (csv_name, insert csv_name files) else Inl OSError)"

definition os_remove :: "cloud_env \<Rightarrow> string \<Rightarrow> string set \<Rightarrow> error + string set" where
  "os_remove E path files =
     (if path \<in> files \<and> remove_ok E then Inr (files - {path}) else Inl OSError)"

text \<open>
  \<open>export_offers_to_yandex_cloud\<close>: the returned flag and the local files at return.
\<close>

definition export_offers_to_yandex_cloud ::
  "cloud_env \<Rightarrow> string option \<Rightarrow> bool \<Rightarrow> string set \<Rightarrow> bool \<times> string set" where
  "export_offers_to_yandex_cloud E bucket_name keep_local_file files =
     (case frame_outcome E of
        FrameRaised \<Rightarrow> (False, files)
      | FrameNone \<Rightarrow> (False, files)
      | FrameEmpty \<Rightarrow> (False, files)
      | FrameRows \<Rightarrow>
          (case save_dataframe_to_csv E files of
             Inl e \<Rightarrow> (False, files)
           | Inr (csv_file, files1) \<Rightarrow>
               (let upload_success = upload_to_yandex_cloud E csv_file bucket_name files1
                in if \<not> upload_success then (False, files1)
                   else if \<not> keep_local_file
                   then (case os_remove E csv_file files1 of
                           Inl e \<Rightarrow> (True, files1)
                         | Inr files2 \<Rightarrow> (True, files2))
                   else (True, files1))))"

section \<open>A small runtime for concrete inputs\<close>

text \<open>
  A runtime with the tables of the characters that occur in the examples: the ASCII
  digits as decimal digits, the whitespace of ASCII and Latin-1, lower-casing of the
  capitals A to Z and of the Cyrillic capitals, a \<open>float\<close> that reads the plain
  decimal literals (digits with at most one point) as rational numbers, and the limit
  of 4300 digits that \<open>int()\<close> has by default. The theorems below hold for every
  runtime; this one evaluates them on concrete pages.
\<close>

definition ascii_decimal :: "nat \<Rightarrow> nat option" where
  "ascii_decimal c = (if 48 \<le> c \<and> c \<le> 57 then Some (c - 48) else None)"

definition latin1_space :: "nat \<Rightarrow> bool" where
  "latin1_space c = (c \<in> {9, 10, 11, 12, 13, 28, 29, 30, 31, 32, 133, 160})"

definition small_lower :: "str \<Rightarrow> str" where
  "small_lower t =
     map (\<lambda>c. if (65 \<le> c \<and> c \<le> 90) \<or> (1040 \<le> c \<and> c \<le> 1071) then c + 32 else c) t"

definition decimal_literal :: "str \<Rightarrow> rat option" where
  "decimal_literal w =
     (let whole = takeWhile (\<lambda>c. c \<noteq> 46) w;
          fraction = drop 1 (dropWhile (\<lambda>c. c \<noteq> 46) w);
          digits = whole @ fraction
      in if digits \<noteq> [] \<and> list_all (\<lambda>c. ascii_decimal c \<noteq> None) digits
         then Some (of_nat (foldl (\<lambda>a c. 10 * a + (c - 48)) 0 digits) / 10 ^ length fraction)
         else None)"

definition small_runtime :: "rat runtime" where
  "small_runtime =
     \<lparr>py_decimal = ascii_decimal,
      py_isdigit = (\<lambda>c. (48 \<le> c \<and> c \<le> 57) \<or> c = 178 \<or> c = 179 \<or> c = 185),
      py_isspace = latin1_space,
      py_lower = small_lower,
      py_float = decimal_literal,
      py_int_max_str_digits = 4300\<rparr>"

section \<open>Example texts and the first run of digits\<close>




text \<open>
  The first run of decimal digits of a text, said directly: skip what is not a digit, take
  digits while they last. \<open>parse_int_value\<close> is compared with it.
\<close>

definition first_digits :: "'f runtime \<Rightarrow> str \<Rightarrow> str" where
  "first_digits R t =
     takeWhile (\<lambda>c. py_decimal R c \<noteq> None) (dropWhile (\<lambda>c. \<not> py_decimal R c \<noteq> None) t)"

section \<open>Concrete pages, catalogues and collaborators\<close>

text \<open>
  Inputs on which the theorems below are evaluated: a highlight container labelled
  \<open>" Etazhey "\<close> (capital first letter, spaces around) with the value \<open>"9"\<close>; a page whose
  total-area container holds the no-break space U+00A0 alone, followed by a floor
  container with the value \<open>"5"\<close>, and the same page without the first container; a
  catalogue of three pages, the first without offers, the second with \<open>/offer/1\<close>, an
  anchor without \<open>href\<close> and an anchor that is no offer, the third with \<open>/offer/1\<close>
  again; a stand-in for \<open>urljoin\<close> that puts the origin in front of the path; and
  collaborators of the export whose upload fails with \<open>ClientError\<close>.
\<close>

definition floors_container :: "str option \<times> str option" where
  "floors_container = (Some [57], Some [32, 1069, 1090, 1072, 1078, 1077, 1081, 32])"

definition blank_area_page :: card_page where
  "blank_area_page =
     Rendered None None [(Some [160], Some label_total), (Some [53], Some label_floor)]"

definition floor_only_page :: card_page where
  "floor_only_page = Rendered None None [(Some [53], Some label_floor)]"

definition sample_seed :: catalog_url where
  "sample_seed = \<lparr>locator = [104, 116, 116, 112, 115, 58, 47, 47, 121, 47], page_field = NoPage\<rparr>"

definition offer_1 :: str where
  "offer_1 = [47, 111, 102, 102, 101, 114, 47, 49]"

definition sample_urljoin :: "catalog_url \<Rightarrow> str \<Rightarrow> str" where
  "sample_urljoin u href = [104, 116, 116, 112, 115, 58, 47, 47, 121] @ href"

definition sample_visit :: "catalog_url \<Rightarrow> page_outcome" where
  "sample_visit u =
     (case page_field u of
        NoPage \<Rightarrow> Loaded []
      | PageInt n \<Rightarrow>
          if n = 2 then Loaded [Some offer_1, None, Some [47, 120]]
          else if n = 3 then Loaded [Some offer_1]
          else GotoFailed
      | PageBad \<Rightarrow> GotoFailed)"

text \<open>
  A walk seeded at page 3 of a catalogue whose page 3 shows one anchor, with an absolute
  \<open>href\<close> (it contains \<open>/offer/\<close> and does not start with it), and whose page 4 shows
  \<open>/offer/1\<close>.
\<close>

definition late_seed :: catalog_url where
  "late_seed = \<lparr>locator = [104, 116, 116, 112, 115, 58, 47, 47, 121, 47], page_field = PageInt 3\<rparr>"

definition late_visit :: "catalog_url \<Rightarrow> page_outcome" where
  "late_visit u =
     (case page_field u of
        PageInt n \<Rightarrow>
          if n = 3 then Loaded [Some ([104, 116, 116, 112, 115, 58, 47, 47, 121] @ offer_1)]
          else if n = 4 then Loaded [Some offer_1]
          else GotoFailed
      | _ \<Rightarrow> GotoFailed)"

definition failing_cloud :: cloud_env where
  "failing_cloud =
     \<lparr>frame_outcome = FrameRows, to_csv_ok = True, s3_session = True,
      getenv_bucket = Some ''bucket'', credentials = True,
      transfer_outcome = ClientError, remove_ok = True\<rparr>"

section \<open>Properties of the batch insert\<close>

lemma insert_loop_sum:
  "insert_loop ok i xs (s, f) = (s', f') \<Longrightarrow> s' + f' = s + f + int (length xs)"
  by (induction xs arbitrary: i s f) (auto split: if_splits)

lemma insert_loop_mono:
  "insert_loop ok i xs (s, f) = (s', f') \<Longrightarrow> s \<le> s' \<and> f \<le> f'"
proof (induction xs arbitrary: i s f)
  case Nil
  then show ?case by simp
next
  case (Cons x xs)
  then show ?case by (fastforce split: if_splits)
qed

text \<open>
  C10. For every list of offers and every behaviour of the session, the statistics of
  \<open>insert_offers_batch\<close> satisfy successful + failed = total = the length of the list,
  and neither counter is negative.
\<close>

theorem insert_offers_batch_counts:
  "successful (insert_offers_batch ok xs) + failed (insert_offers_batch ok xs)
     = total_count (insert_offers_batch ok xs)
   \<and> total_count (insert_offers_batch ok xs) = int (length xs)
   \<and> 0 \<le> successful (insert_offers_batch ok xs)
   \<and> 0 \<le> failed (insert_offers_batch ok xs)"
proof -
  obtain s f where sf: "insert_loop ok 1 xs (0, 0) = (s, f)"
    by (cases "insert_loop ok 1 xs (0, 0)") auto
  from insert_loop_sum [OF sf] insert_loop_mono [OF sf] sf
  show ?thesis by (simp add: insert_offers_batch_def)
qed

theorem insert_offers_batch_counts_witness:
  "total_count (insert_offers_batch (\<lambda>i (x::nat). even i) [5, 6, 7]) = 3"
  using insert_offers_batch_counts [of "\<lambda>i (x::nat). even i" "[5, 6, 7]"] by simp

section \<open>Properties of the value parsers\<close>

lemma py_int_digits:
  "t \<noteq> [] \<Longrightarrow> list_all (\<lambda>c. py_decimal R c \<noteq> None) t \<Longrightarrow>
   py_int R t = (if exceeds_int_max_str_digits R t then Inl ValueError
                 else Inr (foldl (\<lambda>a c. 10 * a + digit_of R c) 0 t))"
  by (simp add: py_int_def)

lemma short_text_converts:
  "length t \<le> 640 \<Longrightarrow> \<not> exceeds_int_max_str_digits R t"
  by (simp add: exceeds_int_max_str_digits_def str_digits_check_threshold_def)



lemma runs_hd:
  "runs p cur t = w # ws \<Longrightarrow> list_all p cur \<Longrightarrow> w \<noteq> [] \<and> list_all p w"
proof (induction t arbitrary: cur w ws)
  case Nil
  then show ?case by (auto split: if_splits simp: list_all_iff)
next
  case (Cons c cs)
  show ?case
  proof (cases "p c")
    case True
    with Cons.prems have "runs p (c # cur) cs = w # ws" by simp
    from Cons.IH [OF this] True Cons.prems(2) show ?thesis by simp
  next
    case False
    show ?thesis
    proof (cases "cur = []")
      case True
      with False Cons.prems have "runs p [] cs = w # ws" by simp
      from Cons.IH [OF this] show ?thesis by simp
    next
      case nonempty: False
      with False Cons.prems have "w = rev cur" by simp
      with nonempty Cons.prems(2) show ?thesis by (simp add: list_all_iff)
    qed
  qed
qed

lemma runs_first:
  "cur \<noteq> [] \<Longrightarrow> \<exists>ws. runs p cur t = (rev cur @ takeWhile p t) # ws"
proof (induction t arbitrary: cur)
  case Nil
  then show ?case by simp
next
  case (Cons c cs)
  show ?case
  proof (cases "p c")
    case True
    with Cons.IH [of "c # cur"] show ?thesis by simp
  next
    case False
    with Cons.prems show ?thesis by simp
  qed
qed

lemma runs_first_run:
  "(case runs p [] t of
      [] \<Rightarrow> takeWhile p (dropWhile (\<lambda>c. \<not> p c) t) = []
    | w # ws \<Rightarrow> w = takeWhile p (dropWhile (\<lambda>c. \<not> p c) t) \<and> w \<noteq> [])"
proof (induction t)
  case Nil
  then show ?case by simp
next
  case (Cons c cs)
  show ?case
  proof (cases "p c")
    case True
    from runs_first [of "[c]" p cs] obtain ws where "runs p [c] cs = ([c] @ takeWhile p cs) # ws"
      by auto
    with True show ?thesis by simp
  next
    case False
    with Cons show ?thesis by (simp split: list.splits)
  qed
qed

lemma first_digits_all: "list_all (\<lambda>c. py_decimal R c \<noteq> None) (first_digits R t)"
  unfolding first_digits_def list_all_iff by (blast dest: set_takeWhileD)

lemma findall_first:
  "(case re_findall_digits R t of
      [] \<Rightarrow> first_digits R t = []
    | w # ws \<Rightarrow> w = first_digits R t \<and> w \<noteq> [])"
  unfolding re_findall_digits_def first_digits_def by (rule runs_first_run)

lemma parse_int_value_first_run:
  "parse_int_value R (Some t) =
     (if first_digits R t = [] then Inr None
      else if exceeds_int_max_str_digits R (first_digits R t) then Inl ValueError
      else Inr (Some (foldl (\<lambda>a c. 10 * a + digit_of R c) 0 (first_digits R t))))"
proof (cases "re_findall_digits R t")
  case Nil
  with findall_first [of R t] have "first_digits R t = []" by simp
  with Nil show ?thesis by (simp add: parse_int_value_def)
next
  case (Cons w ws)
  with findall_first [of R t] have w: "w = first_digits R t" "first_digits R t \<noteq> []" by auto
  then have "t \<noteq> []" by (auto simp: first_digits_def)
  moreover from py_int_digits [OF w(2) first_digits_all] w
  have "py_int R w = (if exceeds_int_max_str_digits R (first_digits R t) then Inl ValueError
          else Inr (foldl (\<lambda>a c. 10 * a + digit_of R c) 0 (first_digits R t)))"
    by simp
  ultimately show ?thesis using Cons w by (simp add: parse_int_value_def)
qed






section \<open>Properties of the field extractor and the detail fetcher\<close>

lemma assign_url: "assign R fld v data = Inr data' \<Longrightarrow> url data' = url data"
  by (cases fld) (auto simp: assign_def store_def split: sum.splits)

lemma scrape_features_url: "url (fst (scrape_features R cs data)) = url data"
  by (induction R cs data rule: scrape_features.induct)
     (auto split: option.splits sum.splits dest: assign_url)

lemma scrape_offer_details_url: "url (scrape_offer_details R pg u) = u"
  by (cases pg)
     (auto simp: scrape_offer_details_def try_body_def initial_data_def store_def
        scrape_features_url split: option.splits sum.splits)

lemma fetch_loop_urls:
  "map url (fetch_loop R browse i links results) = map url results @ links"
  by (induction links arbitrary: i results) (simp_all add: scrape_offer_details_url)

text \<open>
  C3. \<open>scrape_offers_details\<close> returns one record per link, in the order of the links:
  the \<open>i\<close>-th record carries the \<open>i\<close>-th link as its \<open>url\<close>, whatever the browser
  shows at each visit, a failed navigation included.
\<close>

theorem scrape_offers_details_order:
  "map url (scrape_offers_details R browse links) = links
   \<and> length (scrape_offers_details R browse links) = length links
   \<and> (\<forall>i<length links. url (scrape_offers_details R browse links ! i) = links ! i)"
proof -
  have m: "map url (scrape_offers_details R browse links) = links"
    by (simp add: scrape_offers_details_def fetch_loop_urls)
  then have l: "length (scrape_offers_details R browse links) = length links"
    by (metis length_map)
  have "\<forall>i<length links. url (scrape_offers_details R browse links ! i) = links ! i"
  proof (intro allI impI)
    fix i assume "i < length links"
    with l have "i < length (scrape_offers_details R browse links)" by simp
    then have "map url (scrape_offers_details R browse links) ! i
               = url (scrape_offers_details R browse links ! i)" by (rule nth_map)
    with m show "url (scrape_offers_details R browse links ! i) = links ! i" by simp
  qed
  with m l show ?thesis by blast
qed

theorem scrape_offers_details_order_witness:
  "map url (scrape_offers_details small_runtime (\<lambda>i link. NavigationFailed) [[1], [2], [3]])
     = [[1], [2], [3]]"
  using scrape_offers_details_order [of small_runtime "\<lambda>i link. NavigationFailed" "[[1], [2], [3]]"]
  by blast

lemma route_floor_total:
  "route l = Some FloorTotal \<longleftrightarrow> (l = label_of_10 \<or> l = label_floors \<or> startswith l label_of)"
  by (auto simp: route_def startswith_def label_total_def label_living_def label_kitchen_def
        label_floor_def label_of_10_def label_floors_def label_of_def label_ceilings_def
        label_year_built_def)

lemma assign_floor_total:
  "assign R FloorTotal v data =
     (case parse_int_value R (Some v) of
        Inl e \<Rightarrow> Inl e
      | Inr n \<Rightarrow> Inr (data\<lparr>floor_total := n\<rparr>))"
  by (simp add: assign_def store_def)

lemma assign_other_keeps_floor_total:
  "fld \<noteq> FloorTotal \<Longrightarrow> assign R fld v data = Inr data' \<Longrightarrow> floor_total data' = floor_total data"
  by (cases fld) (auto simp: assign_def store_def split: sum.splits)

text \<open>
  C7. A container that has both elements is routed to \<open>floor_total\<close> exactly when its
  normalised label is \<open>"iz 10"\<close>, is \<open>"etazhey"\<close>, or starts with \<open>"iz"\<close>. Such a
  container sets \<open>floor_total\<close> to what \<open>parse_int_value\<close> makes of its value and leaves
  every other field as it was, or, when the first run of digits of its value is longer
  than the limit of \<open>int()\<close>, raises \<open>ValueError\<close> and sets no field at all: the loop
  ends with the record as it was. A container routed elsewhere leaves \<open>floor_total\<close>
  as it was.
\<close>

theorem floor_total_dispatch:
  "(route l = Some FloorTotal \<longleftrightarrow> (l = label_of_10 \<or> l = label_floors \<or> startswith l label_of))
   \<and> (route (py_lower R (py_strip R label_raw)) = Some FloorTotal \<longrightarrow>
        (case parse_int_value R (Some value_text) of
           Inr n \<Rightarrow>
             scrape_features R ((Some value_text, Some label_raw) # rest) data
               = scrape_features R rest (data\<lparr>floor_total := n\<rparr>)
         | Inl e \<Rightarrow>
             e = ValueError \<and> exceeds_int_max_str_digits R (first_digits R value_text)
             \<and> scrape_features R ((Some value_text, Some label_raw) # rest) data
                 = (data, Some ValueError))
        \<and> (\<not> exceeds_int_max_str_digits R (first_digits R value_text) \<longrightarrow>
             (\<exists>n. parse_int_value R (Some value_text) = Inr n)))
   \<and> (\<forall>fld data'. route l = Some fld \<and> fld \<noteq> FloorTotal \<and> assign R fld value_text data = Inr data'
         \<longrightarrow> floor_total data' = floor_total data)"
proof -
  have a: "route l = Some FloorTotal \<longleftrightarrow> (l = label_of_10 \<or> l = label_floors \<or> startswith l label_of)"
    by (rule route_floor_total)
  have b: "route (py_lower R (py_strip R label_raw)) = Some FloorTotal \<longrightarrow>
        (case parse_int_value R (Some value_text) of
           Inr n \<Rightarrow>
             scrape_features R ((Some value_text, Some label_raw) # rest) data
               = scrape_features R rest (data\<lparr>floor_total := n\<rparr>)
         | Inl e \<Rightarrow>
             e = ValueError \<and> exceeds_int_max_str_digits R (first_digits R value_text)
             \<and> scrape_features R ((Some value_text, Some label_raw) # rest) data
                 = (data, Some ValueError))
        \<and> (\<not> exceeds_int_max_str_digits R (first_digits R value_text) \<longrightarrow>
             (\<exists>n. parse_int_value R (Some value_text) = Inr n))"
    by (simp add: assign_floor_total parse_int_value_first_run)
  have c: "\<forall>fld data'. route l = Some fld \<and> fld \<noteq> FloorTotal \<and> assign R fld value_text data = Inr data'
         \<longrightarrow> floor_total data' = floor_total data"
    using assign_other_keeps_floor_total by blast
  from a b c show ?thesis by blast
qed

theorem floor_total_dispatch_witness:
  "scrape_features small_runtime [floors_container] (initial_data [47])
     = ((initial_data [47])\<lparr>floor_total := Some 9\<rparr>, None)"
proof -
  have l: "py_lower small_runtime (py_strip small_runtime [32, 1069, 1090, 1072, 1078, 1077, 1081, 32])
           = label_floors"
    by (simp add: small_runtime_def py_strip_def latin1_space_def small_lower_def label_floors_def)
  have r: "route (py_lower small_runtime
             (py_strip small_runtime [32, 1069, 1090, 1072, 1078, 1077, 1081, 32])) = Some FloorTotal"
    unfolding l using floor_total_dispatch [of label_floors] by blast
  have p: "parse_int_value small_runtime (Some [57]) = Inr (Some 9)"
    by (simp add: parse_int_value_def re_findall_digits_def small_runtime_def ascii_decimal_def
          py_int_def digit_of_def short_text_converts)
  from floor_total_dispatch [of label_floors small_runtime
         "[32, 1069, 1090, 1072, 1078, 1077, 1081, 32]" "[57]" "[]" "initial_data [47]"] r
  have "case parse_int_value small_runtime (Some [57]) of
          Inr n \<Rightarrow>
            scrape_features small_runtime
              [(Some [57], Some [32, 1069, 1090, 1072, 1078, 1077, 1081, 32])] (initial_data [47])
            = scrape_features small_runtime [] ((initial_data [47])\<lparr>floor_total := n\<rparr>)
        | Inl e \<Rightarrow>
            e = ValueError \<and> exceeds_int_max_str_digits small_runtime (first_digits small_runtime [57])
            \<and> scrape_features small_runtime
                [(Some [57], Some [32, 1069, 1090, 1072, 1078, 1077, 1081, 32])] (initial_data [47])
              = (initial_data [47], Some ValueError)"
    by blast
  with p show ?thesis by (simp add: floors_container_def)
qed

text \<open>
  What does hold of the price: a price text that leaves no digit is treated exactly as a
  missing price element, so the price stays \<open>None\<close> and every other field is read as
  it would be without it.
\<close>

lemma price_failure_isolated:
  assumes "re_sub_non_digits R t = []"
  shows "scrape_offer_details R (Rendered (Some t) a cs) u
         = scrape_offer_details R (Rendered None a cs) u"
proof -
  from assms have "parse_price R (Some t) = Inr None"
    by (simp add: parse_price_def str_isdigit_def)
  moreover have "(initial_data u :: 'a offer)\<lparr>price_rub := None\<rparr> = initial_data u"
    by (simp add: initial_data_def)
  ultimately show ?thesis
    by (simp add: scrape_offer_details_def try_body_def store_def)
qed

lemma runs_none: "\<forall>c\<in>set t. \<not> p c \<Longrightarrow> runs p [] t = []"
  by (induction t) auto

text \<open>
  C2. The claim fails on the code: a value text that is not empty and holds whitespace
  only, under a label of one of the four decimal fields, makes \<open>text.split()[0]\<close> raise
  \<open>IndexError\<close>, which \<open>parse_float_value\<close> does not catch (it catches
  \<open>ValueError\<close>). The exception ends the loop over the containers, so the fields of
  all later containers stay \<open>None\<close>.
\<close>

theorem blank_value_drops_later_fields:
  assumes blank: "value_text \<noteq> []" "\<forall>c\<in>set value_text. py_isspace R c"
    and fld: "route (py_lower R (py_strip R label_raw)) = Some fld"
             "fld \<in> {TotalArea, LivingArea, KitchenArea, CeilingHeight}"
  shows "parse_float_value R (Some value_text) = Inl IndexError
    \<and> scrape_features R ((Some value_text, Some label_raw) # rest) data = (data, Some IndexError)"
proof -
  from blank have "py_split R value_text = []"
    by (simp add: py_split_def runs_none)
  with blank have p: "parse_float_value R (Some value_text) = Inl IndexError"
    by (simp add: parse_float_value_def)
  with fld have "assign R fld value_text data = Inl IndexError"
    by (auto simp: assign_def store_def)
  with fld p show ?thesis by simp
qed

lemma label_total_normal: "py_lower small_runtime (py_strip small_runtime label_total) = label_total"
  by (simp add: small_runtime_def py_strip_def latin1_space_def small_lower_def label_total_def)

lemma label_floor_normal: "py_lower small_runtime (py_strip small_runtime label_floor) = label_floor"
  by (simp add: small_runtime_def py_strip_def latin1_space_def small_lower_def label_floor_def)

lemma route_total: "route label_total = Some TotalArea"
  by (simp add: route_def)

lemma route_floor: "route label_floor = Some Floor"
  by (simp add: route_def label_floor_def label_total_def label_living_def label_kitchen_def)

theorem blank_value_drops_later_fields_witness:
  "floor_no (scrape_offer_details small_runtime blank_area_page [47]) = None
   \<and> floor_no (scrape_offer_details small_runtime floor_only_page [47]) = Some 5"
proof -
  have a: "[160] \<noteq> ([] :: str)" "\<forall>c\<in>set [160]. py_isspace small_runtime c"
    by (simp_all add: small_runtime_def latin1_space_def)
  have b: "route (py_lower small_runtime (py_strip small_runtime label_total)) = Some TotalArea"
    "TotalArea \<in> {TotalArea, LivingArea, KitchenArea, CeilingHeight}"
    by (simp_all add: label_total_normal route_total)
  from blank_value_drops_later_fields [OF a b]
  have "scrape_features small_runtime
          ((Some [160], Some label_total) # [(Some [53], Some label_floor)]) (initial_data [47])
        = (initial_data [47], Some IndexError)" by blast
  then have one: "floor_no (scrape_offer_details small_runtime blank_area_page [47]) = None"
    by (simp add: scrape_offer_details_def try_body_def blank_area_page_def initial_data_def)
  have p: "parse_int_value small_runtime (Some [53]) = Inr (Some 5)"
    by (simp add: parse_int_value_def re_findall_digits_def small_runtime_def ascii_decimal_def
          py_int_def digit_of_def short_text_converts)
  have two: "floor_no (scrape_offer_details small_runtime floor_only_page [47]) = Some 5"
    by (simp add: scrape_offer_details_def try_body_def floor_only_page_def initial_data_def
          label_floor_normal route_floor assign_def store_def p)
  from one two show ?thesis by blast
qed


section \<open>Properties of the frontier walker\<close>

lemma collect_links_mono: "S |\<subseteq>| collect_links uj u hs S"
proof (induction uj u hs S rule: collect_links.induct)
  case (1 urljoin current_url collected_links)
  then show ?case by simp
next
  case (2 urljoin current_url elements collected_links)
  then show ?case by simp
next
  case (3 urljoin current_url href elements collected_links)
  then show ?case by (auto split: if_splits)
qed

lemma found_zero_iff:
  "int (fcard (collect_links uj u hs S)) - int (fcard S) = 0 \<longleftrightarrow> collect_links uj u hs S = S"
proof
  assume "int (fcard (collect_links uj u hs S)) - int (fcard S) = 0"
  then have "fcard (collect_links uj u hs S) \<le> fcard S" by simp
  with collect_links_mono [of S uj u hs] show "collect_links uj u hs S = S"
    by (metis fcard_seteq)
next
  assume "collect_links uj u hs S = S"
  then show "int (fcard (collect_links uj u hs S)) - int (fcard S) = 0" by simp
qed

lemma fcard_same_iff:
  "fcard (collect_links uj u hs S) = fcard S \<longleftrightarrow> collect_links uj u hs S = S"
  using found_zero_iff [of uj u hs S] by simp

lemma walk_failed:
  "page_param u = Inr n \<Longrightarrow> visit u = GotoFailed \<or> visit u = SelectorTimeout
   \<Longrightarrow> recursive_scrape_page visit uj u S = Inr S"
  by (subst recursive_scrape_page.simps) auto

lemma walk_barren:
  "page_param u = Inr n \<Longrightarrow> 1 < n \<Longrightarrow> visit u = Loaded hs \<Longrightarrow> collect_links uj u hs S = S
   \<Longrightarrow> recursive_scrape_page visit uj u S = Inr S"
  by (subst recursive_scrape_page.simps) (simp add: Let_def)

lemma walk_first:
  "page_param u = Inr n \<Longrightarrow> n \<le> 1 \<Longrightarrow> visit u = Loaded hs
   \<Longrightarrow> recursive_scrape_page visit uj u S
       = recursive_scrape_page visit uj (next_page_url u n) (collect_links uj u hs S)"
  by (subst recursive_scrape_page.simps) (simp add: Let_def)

lemma walk_fruitful:
  "page_param u = Inr n \<Longrightarrow> n < 25 \<Longrightarrow> visit u = Loaded hs \<Longrightarrow> collect_links uj u hs S \<noteq> S
   \<Longrightarrow> recursive_scrape_page visit uj u S
       = recursive_scrape_page visit uj (next_page_url u n) (collect_links uj u hs S)"
  by (subst recursive_scrape_page.simps) (simp add: Let_def fcard_same_iff)

lemma walk_returns:
  "page_field u \<noteq> PageBad \<Longrightarrow> \<exists>S'. recursive_scrape_page visit uj u S = Inr S' \<and> S |\<subseteq>| S'"
proof (induction visit uj u S rule: recursive_scrape_page.induct)
  case (1 visit urljoin current_url collected_links)
  from "1.prems" obtain n where n: "page_param current_url = Inr n"
    by (cases "page_field current_url") (auto simp: page_param_def)
  show ?case
  proof (cases "visit current_url")
    case GotoFailed
    with n show ?thesis by (subst recursive_scrape_page.simps) auto
  next
    case SelectorTimeout
    with n show ?thesis by (subst recursive_scrape_page.simps) auto
  next
    case (Loaded elements)
    let ?c = "collect_links urljoin current_url elements collected_links"
    have sub: "collected_links |\<subseteq>| ?c" by (rule collect_links_mono)
    show ?thesis
    proof (cases "(int (fcard ?c) - int (fcard collected_links) = 0 \<and> n > 1) \<or> n \<ge> 25")
      case True
      with n Loaded sub show ?thesis
        by (subst recursive_scrape_page.simps) (auto simp: Let_def)
    next
      case False
      have nb: "page_field (next_page_url current_url n) \<noteq> PageBad"
        by (simp add: next_page_url_def)
      from False have f1: "\<not> (int (fcard ?c) - int (fcard collected_links) = 0 \<and> 1 < n)"
        and f2: "\<not> 25 \<le> n" by auto
      from "1.IH" [OF n Loaded refl refl refl f1 f2 nb]
      obtain S' where "recursive_scrape_page visit urljoin (next_page_url current_url n) ?c = Inr S'"
        "?c |\<subseteq>| S'" by blast
      with n Loaded False sub show ?thesis
        by (subst recursive_scrape_page.simps) (auto simp: Let_def)
    qed
  qed
qed

lemma page_param_page_url: "page_param (page_url seed j) = Inr j"
  by (simp add: page_url_def page_param_def)

lemma page_url_seed: "page_param seed = Inr s \<Longrightarrow> page_url seed s = seed"
  by (simp add: page_url_def)

lemma next_page_url_page_url:
  "page_param seed = Inr s \<Longrightarrow> s \<le> j \<Longrightarrow> next_page_url (page_url seed j) j = page_url seed (j + 1)"
  by (auto simp: page_url_def next_page_url_def page_param_def split: page_field.splits)

lemma links_between_before: "n < s \<Longrightarrow> links_between visit uj seed s n = {||}"
  by (subst links_between.simps) simp

lemma links_between_step:
  "s \<le> n \<Longrightarrow> visit (page_url seed n) = Loaded hs
   \<Longrightarrow> links_between visit uj seed s n
       = collect_links uj (page_url seed n) hs (links_between visit uj seed s (n - 1))"
  by (subst links_between.simps) simp

lemma walk_from:
  assumes seed: "page_param seed = Inr s"
    and k: "s \<le> k" "2 \<le> k" "k \<le> 25"
    and loaded: "\<forall>j\<in>{s..k}. \<exists>elements. visit (page_url seed j) = Loaded elements"
    and fruitful: "\<forall>j\<in>{max 2 s..<k}.
            links_between visit uj seed s j \<noteq> links_between visit uj seed s (j - 1)"
    and barren: "links_between visit uj seed s k = links_between visit uj seed s (k - 1)"
  shows "s \<le> j \<Longrightarrow> j \<le> k \<Longrightarrow>
         recursive_scrape_page visit uj (page_url seed j) (links_between visit uj seed s (j - 1))
           = Inr (links_between visit uj seed s (k - 1))"
proof (induction "nat (k - j)" arbitrary: j)
  case 0
  then have jk: "j = k" by simp
  from k have "k \<in> {s..k}" by simp
  with loaded obtain hs where hs: "visit (page_url seed k) = Loaded hs" by blast
  from links_between_step [where visit = visit and uj = uj, OF k(1) hs] barren
  have same: "collect_links uj (page_url seed k) hs (links_between visit uj seed s (k - 1))
              = links_between visit uj seed s (k - 1)" by simp
  from k have "page_param (page_url seed k) = Inr k" "1 < k"
    using page_param_page_url [of seed k] by auto
  from walk_barren [where visit = visit, OF this hs same] jk show ?case by simp
next
  case (Suc d)
  then have lt: "j < k" by simp
  from Suc.prems have "j \<in> {s..k}" by simp
  with loaded obtain hs where hs: "visit (page_url seed j) = Loaded hs" by blast
  from links_between_step [where visit = visit and uj = uj, OF Suc.prems(1) hs]
  have col: "collect_links uj (page_url seed j) hs (links_between visit uj seed s (j - 1))
             = links_between visit uj seed s j" by simp
  have pp: "page_param (page_url seed j) = Inr j"
    by (rule page_param_page_url)
  have nx: "next_page_url (page_url seed j) j = page_url seed (j + 1)"
    using next_page_url_page_url [OF seed Suc.prems(1)] .
  from Suc.hyps(2) lt have d: "d = nat (k - (j + 1))" by simp
  from Suc.prems lt have sj: "s \<le> j + 1" "j + 1 \<le> k" by simp_all
  have ih: "recursive_scrape_page visit uj (page_url seed (j + 1)) (links_between visit uj seed s j)
              = Inr (links_between visit uj seed s (k - 1))"
    using Suc.hyps(1) [OF d sj] by simp
  show ?case
  proof (cases "j \<le> 1")
    case True
    from walk_first [where visit = visit and uj = uj
             and S = "links_between visit uj seed s (j - 1)", OF pp True hs] nx col ih
    show ?thesis by simp
  next
    case False
    with Suc.prems lt have "j \<in> {max 2 s..<k}" by simp
    with fruitful have "links_between visit uj seed s j \<noteq> links_between visit uj seed s (j - 1)"
      by blast
    with col have ne: "collect_links uj (page_url seed j) hs (links_between visit uj seed s (j - 1))
                       \<noteq> links_between visit uj seed s (j - 1)" by simp
    from lt k have "j < 25" by simp
    from walk_fruitful [where visit = visit, OF pp this hs ne] nx col ih show ?thesis by simp
  qed
qed

text \<open>
  C1, as amended. The page that is exempt is the page with number 1 (or below), not the
  first page visited. In a walk from a seed URL that is page \<open>s\<close> (\<open>s = 1\<close> when the
  URL carries no parameter \<open>page\<close>): when the pages \<open>s\<close> to \<open>k\<close> load, every page
  from \<open>s\<close> to \<open>k - 1\<close> with a number above 1 adds a link and page \<open>k\<close> (\<open>1 < k\<close>,
  within the cap of 25) adds none, the walker returns exactly the links of the pages
  \<open>s\<close> to \<open>k - 1\<close>, which for \<open>s = 1\<close> are the pages 1 to \<open>k - 1\<close>; nothing is asked
  of page 1, which may add no link. At any page with a number above 1 that adds no link,
  the first page visited included, the walker returns the set it holds; at a page with a
  number up to 1 it goes on to the next page.
\<close>

theorem walker_stops_at_barren_page:
  assumes seed: "page_param seed = Inr s"
    and k: "s \<le> k" "2 \<le> k" "k \<le> 25"
    and loaded: "\<forall>j\<in>{s..k}. \<exists>elements. visit (page_url seed j) = Loaded elements"
    and fruitful: "\<forall>j\<in>{max 2 s..<k}.
            links_between visit uj seed s j \<noteq> links_between visit uj seed s (j - 1)"
    and barren: "links_between visit uj seed s k = links_between visit uj seed s (k - 1)"
  shows "recursive_scrape_page visit uj seed {||} = Inr (links_between visit uj seed s (k - 1))
    \<and> (\<forall>u n hs S. page_param u = Inr n \<and> 1 < n \<and> visit u = Loaded hs
          \<and> collect_links uj u hs S = S
          \<longrightarrow> recursive_scrape_page visit uj u S = Inr S)
    \<and> (\<forall>u n hs S. page_param u = Inr n \<and> n \<le> 1 \<and> visit u = Loaded hs
          \<longrightarrow> recursive_scrape_page visit uj u S
              = recursive_scrape_page visit uj (next_page_url u n) (collect_links uj u hs S))"
proof -
  have start: "links_between visit uj seed s (s - 1) = {||}"
    by (rule links_between_before) simp
  have "recursive_scrape_page visit uj (page_url seed s) (links_between visit uj seed s (s - 1))
        = Inr (links_between visit uj seed s (k - 1))"
    using walk_from [OF seed k loaded fruitful barren, of s] k by simp
  then have a: "recursive_scrape_page visit uj seed {||}
                = Inr (links_between visit uj seed s (k - 1))"
    unfolding start page_url_seed [OF seed] .
  have b: "\<forall>u n hs S. page_param u = Inr n \<and> 1 < n \<and> visit u = Loaded hs
          \<and> collect_links uj u hs S = S
          \<longrightarrow> recursive_scrape_page visit uj u S = Inr S"
    using walk_barren by blast
  have c: "\<forall>u n hs S. page_param u = Inr n \<and> n \<le> 1 \<and> visit u = Loaded hs
          \<longrightarrow> recursive_scrape_page visit uj u S
              = recursive_scrape_page visit uj (next_page_url u n) (collect_links uj u hs S)"
    using walk_first by blast
  from a b c show ?thesis by blast
qed

text \<open>
  C6. When \<open>page.goto\<close> or the wait for an offer anchor raises at a page, the walker
  returns the links collected so far; and from every URL whose \<open>page\<close> parameter is
  absent or an integer the walk returns a set, which contains the set it started with.
\<close>

theorem walker_catches_page_failures:
  "(page_field u \<noteq> PageBad \<and> (visit u = GotoFailed \<or> visit u = SelectorTimeout)
      \<longrightarrow> recursive_scrape_page visit uj u S = Inr S)
   \<and> (page_field u \<noteq> PageBad
      \<longrightarrow> (\<exists>S'. recursive_scrape_page visit uj u S = Inr S' \<and> S |\<subseteq>| S'))"
proof -
  have a: "page_field u \<noteq> PageBad \<and> (visit u = GotoFailed \<or> visit u = SelectorTimeout)
      \<longrightarrow> recursive_scrape_page visit uj u S = Inr S"
  proof
    assume h: "page_field u \<noteq> PageBad \<and> (visit u = GotoFailed \<or> visit u = SelectorTimeout)"
    then obtain n where "page_param u = Inr n"
      by (cases "page_field u") (auto simp: page_param_def)
    with h walk_failed show "recursive_scrape_page visit uj u S = Inr S" by blast
  qed
  have b: "page_field u \<noteq> PageBad
      \<longrightarrow> (\<exists>S'. recursive_scrape_page visit uj u S = Inr S' \<and> S |\<subseteq>| S')"
    using walk_returns by blast
  from a b show ?thesis by blast
qed

lemma sample_links:
  "links_between sample_visit sample_urljoin sample_seed 1 1 = {||}"
  "links_between sample_visit sample_urljoin sample_seed 1 2
     = {|[104, 116, 116, 112, 115, 58, 47, 47, 121] @ offer_1|}"
  "links_between sample_visit sample_urljoin sample_seed 1 3
     = {|[104, 116, 116, 112, 115, 58, 47, 47, 121] @ offer_1|}"
  by (simp_all add: links_between.simps sample_visit_def sample_seed_def page_url_def
        page_param_def sample_urljoin_def startswith_def offer_prefix_def offer_1_def)

theorem walker_stops_at_barren_page_witness:
  "recursive_scrape_page sample_visit sample_urljoin sample_seed {||}
     = Inr {|[104, 116, 116, 112, 115, 58, 47, 47, 121] @ offer_1|}"
proof -
  have seed: "page_param sample_seed = Inr 1"
    by (simp add: sample_seed_def page_param_def)
  have k: "(1::int) \<le> 3" "2 \<le> (3::int)" "(3::int) \<le> 25" by simp_all
  have three: "{1..3::int} = {1, 2, 3}" by auto
  have loaded: "\<forall>j\<in>{1..3::int}. \<exists>elements. sample_visit (page_url sample_seed j) = Loaded elements"
    unfolding three by (simp add: sample_visit_def page_url_def page_param_def sample_seed_def)
  have two: "{max 2 1..<3::int} = {2}" by auto
  have fruitful: "\<forall>j\<in>{max 2 1..<3::int}. links_between sample_visit sample_urljoin sample_seed 1 j
                     \<noteq> links_between sample_visit sample_urljoin sample_seed 1 (j - 1)"
    unfolding two using sample_links by simp
  have barren: "links_between sample_visit sample_urljoin sample_seed 1 3
                = links_between sample_visit sample_urljoin sample_seed 1 (3 - 1)"
    using sample_links by simp
  from walker_stops_at_barren_page [OF seed k loaded fruitful barren] sample_links
  show ?thesis by simp
qed

text \<open>
  The claim as it is written, that a first page without new links does not end the walk,
  fails on a walk seeded at page 3: the page loads and adds no link, the walker returns
  the empty set there and never visits page 4, from which the walk brings a link.
\<close>

theorem walker_stops_at_first_visited_page:
  "page_param late_seed = Inr 3
   \<and> late_visit late_seed = Loaded [Some ([104, 116, 116, 112, 115, 58, 47, 47, 121] @ offer_1)]
   \<and> recursive_scrape_page late_visit sample_urljoin late_seed {||} = Inr {||}
   \<and> recursive_scrape_page late_visit sample_urljoin (next_page_url late_seed 3) {||}
       = Inr {|[104, 116, 116, 112, 115, 58, 47, 47, 121] @ offer_1|}"
proof -
  have p: "page_param late_seed = Inr 3"
    by (simp add: late_seed_def page_param_def)
  have v: "late_visit late_seed
           = Loaded [Some ([104, 116, 116, 112, 115, 58, 47, 47, 121] @ offer_1)]"
    by (simp add: late_visit_def late_seed_def)
  have c: "collect_links sample_urljoin late_seed
             [Some ([104, 116, 116, 112, 115, 58, 47, 47, 121] @ offer_1)] {||} = {||}"
    by (simp add: startswith_def offer_prefix_def offer_1_def)
  have stop: "recursive_scrape_page late_visit sample_urljoin late_seed {||} = Inr {||}"
    using walk_barren [where visit = late_visit, OF p _ v c] by simp
  have p4: "page_param (next_page_url late_seed 3) = Inr 4"
    by (simp add: next_page_url_def late_seed_def page_param_def)
  have v4: "late_visit (next_page_url late_seed 3) = Loaded [Some offer_1]"
    by (simp add: late_visit_def next_page_url_def late_seed_def)
  have c4: "collect_links sample_urljoin (next_page_url late_seed 3) [Some offer_1] {||}
            = {|[104, 116, 116, 112, 115, 58, 47, 47, 121] @ offer_1|}"
    by (simp add: startswith_def offer_prefix_def offer_1_def sample_urljoin_def)
  have p5: "page_param (next_page_url (next_page_url late_seed 3) 4) = Inr 5"
    by (simp add: next_page_url_def late_seed_def page_param_def)
  have v5: "late_visit (next_page_url (next_page_url late_seed 3) 4) = GotoFailed"
    by (simp add: late_visit_def next_page_url_def late_seed_def)
  have "recursive_scrape_page late_visit sample_urljoin (next_page_url late_seed 3) {||}
        = recursive_scrape_page late_visit sample_urljoin
            (next_page_url (next_page_url late_seed 3) 4)
            {|[104, 116, 116, 112, 115, 58, 47, 47, 121] @ offer_1|}"
    using walk_fruitful [where visit = late_visit and uj = sample_urljoin and S = "{||}",
            OF p4 _ v4] c4 by simp
  also have "\<dots> = Inr {|[104, 116, 116, 112, 115, 58, 47, 47, 121] @ offer_1|}"
    using walk_failed [where visit = late_visit, OF p5] v5 by simp
  finally show ?thesis using p v stop by simp
qed

theorem walker_catches_page_failures_witness:
  "recursive_scrape_page (\<lambda>u. SelectorTimeout) sample_urljoin
     (sample_seed\<lparr>page_field := PageInt 3\<rparr>) {|offer_1|} = Inr {|offer_1|}"
  using walker_catches_page_failures
          [of "sample_seed\<lparr>page_field := PageInt 3\<rparr>" "\<lambda>u. SelectorTimeout"
              sample_urljoin "{|offer_1|}"]
  by simp

section \<open>Properties of the export pipeline\<close>

text \<open>
  C9. When the upload reports failure the export returns \<open>False\<close> and the CSV file it
  wrote is still there; with \<open>keep_local_file\<close> no file is removed; a failed export
  removes no file; once the CSV file is written it is missing at return only if the
  upload succeeded, \<open>keep_local_file\<close> was not set and the export returns \<open>True\<close>; and
  no other file is touched.
\<close>

theorem export_keeps_local_file:
  "(frame_outcome E = FrameRows \<and> to_csv_ok E
      \<and> \<not> upload_to_yandex_cloud E csv_name bucket (insert csv_name files)
      \<longrightarrow> export_offers_to_yandex_cloud E bucket keep files = (False, insert csv_name files))
   \<and> (keep \<longrightarrow> files \<subseteq> snd (export_offers_to_yandex_cloud E bucket keep files))
   \<and> (\<not> fst (export_offers_to_yandex_cloud E bucket keep files)
      \<longrightarrow> files \<subseteq> snd (export_offers_to_yandex_cloud E bucket keep files))
   \<and> (frame_outcome E = FrameRows \<and> to_csv_ok E
      \<and> csv_name \<notin> snd (export_offers_to_yandex_cloud E bucket keep files)
      \<longrightarrow> upload_to_yandex_cloud E csv_name bucket (insert csv_name files) \<and> \<not> keep
          \<and> fst (export_offers_to_yandex_cloud E bucket keep files))
   \<and> snd (export_offers_to_yandex_cloud E bucket keep files) - {csv_name} = files - {csv_name}"
  by (auto simp: export_offers_to_yandex_cloud_def save_dataframe_to_csv_def os_remove_def Let_def
        split: frame.splits if_splits sum.splits prod.splits)

theorem export_keeps_local_file_witness:
  "export_offers_to_yandex_cloud failing_cloud None False {} = (False, {csv_name})"
proof -
  have "\<not> upload_to_yandex_cloud failing_cloud csv_name None (insert csv_name {})"
    by (simp add: upload_to_yandex_cloud_def upload_file_to_s3_def failing_cloud_def)
  moreover have "frame_outcome failing_cloud = FrameRows \<and> to_csv_ok failing_cloud"
    by (simp add: failing_cloud_def)
  ultimately show ?thesis
    using export_keeps_local_file [of failing_cloud None "{}" False] by blast
qed

end
